theory Spec2Isabelle
  imports Main
begin

section \<open>Test groups, declaration builders and run cases\<close>

text \<open>
  A shallow embedding of \<^verbatim>\<open>test_group.ts\<close>: the classes \<^verbatim>\<open>TestGroup\<close>,
  \<^verbatim>\<open>TestBuilder\<close> and \<^verbatim>\<open>RunCaseSpecific\<close>. Mutation of \<^verbatim>\<open>this\<close> is explicit
  state passing, a \<^verbatim>\<open>throw\<close> is the left injection of a sum, and the calls a run case
  makes on its collaborators (the recorder and the fixture) are collected in a trace.
  An \<^verbatim>\<open>await\<close> is the call it waits for: the code never runs two calls at once, and
  a rejected promise is the exception it is rejected with.
\<close>

subsection \<open>Exceptions\<close>

text \<open>
  The values the code throws and catches. \<^verbatim>\<open>SkipTestCase\<close> is the class tested by
  \<^verbatim>\<open>ex instanceof SkipTestCase\<close>; \<^verbatim>\<open>URIError\<close> is what the built-in
  \<^verbatim>\<open>decodeURIComponent\<close> throws; \<^verbatim>\<open>JSError\<close> stands for every other \<^verbatim>\<open>Error\<close>.
  Each carries its message.
\<close>

datatype exn =
    SkipTestCase string
  | AssertionError string
  | URIError string
  | JSError string

fun is_SkipTestCase :: "exn \<Rightarrow> bool" where
  "is_SkipTestCase (SkipTestCase m) = True"
| "is_SkipTestCase e = False"

text \<open>
  Modelled from the spec: \<^verbatim>\<open>assert\<close> of \<^verbatim>\<open>util/util.js\<close>, which is imported but
  not part of the sources at hand. The spec calls its failure an assertion failure that
  aborts the caller; the message is the second argument (empty when none is given).
\<close>

definition assert :: "bool \<Rightarrow> string \<Rightarrow> exn + unit" where
  "assert cond msg = (if cond then Inr () else Inl (AssertionError msg))"

subsection \<open>Strings and iterables of the language\<close>

text \<open>
  \<^verbatim>\<open>String.prototype.split\<close> with a string separator: an empty separator splits into
  single characters (and the empty string into no piece at all); otherwise the pieces
  between the non-overlapping occurrences of the separator, scanned from the left.
\<close>

fun split_from :: "char \<Rightarrow> string \<Rightarrow> string \<Rightarrow> string \<Rightarrow> string list" where
  "split_from s ss acc [] = [rev acc]"
| "split_from s ss acc (c # cs) =
     (if take (Suc (length ss)) (c # cs) = s # ss
      then rev acc # split_from s ss [] (drop (length ss) cs)
      else split_from s ss (c # acc) cs)"

definition String_split :: "string \<Rightarrow> string \<Rightarrow> string list" where
  "String_split str sep =
     (case sep of [] \<Rightarrow> map (\<lambda>c. [c]) str | s # ss \<Rightarrow> split_from s ss [] str)"

text \<open>\<^verbatim>\<open>Array.prototype.join\<close> on an array of strings.\<close>

fun Array_join :: "string list \<Rightarrow> string \<Rightarrow> string" where
  "Array_join [] sep = []"
| "Array_join [x] sep = x"
| "Array_join (x # y # ys) sep = x @ sep @ Array_join (y # ys) sep"

text \<open>
  What a \<^verbatim>\<open>for (... of ...)\<close> loop observes of an iterable: the items it yields, in
  order, and the exception that ends the iteration early, if one does.
\<close>

type_synonym 'a iteration = "'a list \<times> exn option"

text \<open>
  The iterable objects a caller can hand to \<^verbatim>\<open>cases\<close> live in a store, since the
  caller keeps a reference to them: an array, which every iteration reads afresh, or a
  one-shot iterator (a generator object), which holds the items it has not yielded yet
  and the exception it throws after them, and which is exhausted by being iterated.
  Addresses are indices into the store; allocation appends.
\<close>

datatype 'a jsobj =
    JSArray "'a list"
  | JSIterator "'a list" "exn option"

type_synonym 'a heap = "'a jsobj list"

definition lookup :: "'a heap \<Rightarrow> nat \<Rightarrow> 'a jsobj option" where
  "lookup h a = (if a < length h then Some (h ! a) else None)"

definition for_of :: "'a heap \<Rightarrow> nat \<Rightarrow> 'a iteration \<times> 'a heap" where
  "for_of h a =
     (case lookup h a of
        None \<Rightarrow> (([], Some (JSError ''object is not iterable'')), h)
      | Some (JSArray xs) \<Rightarrow> ((xs, None), h)
      | Some (JSIterator xs eo) \<Rightarrow> ((xs, eo), h[a := JSIterator [] None]))"

text \<open>
  \<^verbatim>\<open>Array.from(iterable)\<close>: iterates its argument to the end and returns a new array
  of the items; an exception of the iteration propagates and no array is made.
\<close>

definition Array_from :: "'a heap \<Rightarrow> nat \<Rightarrow> (exn + nat) \<times> 'a heap" where
  "Array_from h src =
     (case for_of h src of
        ((xs, Some e), h1) \<Rightarrow> (Inl e, h1)
      | ((xs, None), h1) \<Rightarrow> (Inr (length h1), h1 @ [JSArray xs]))"

subsection \<open>Collaborators\<close>

text \<open>A parameter record (\<^verbatim>\<open>CaseParams\<close>): keys with their values, in insertion order.\<close>

type_synonym 'v CaseParams = "(string \<times> 'v) list"

text \<open>
  The imported helpers whose code is not part of the sources at hand, taken as
  parameters: the parameter utilities of \<^verbatim>\<open>params_utils.js\<close> and
  \<^verbatim>\<open>query/stringify_params.js\<close>, the separator and the regular expression of
  \<^verbatim>\<open>query/\<close> (its \<^verbatim>\<open>test\<close> method and its printed form), and the built-in
  \<^verbatim>\<open>decodeURIComponent\<close>, which throws on a malformed escape sequence.
  \<^verbatim>\<open>stringifyPublicParams\<close> may throw too: the code says that it
  "also checks for invalid params values". The other helpers are taken to return: they
  are used as pure functions, and nothing in the code says otherwise.
\<close>

record 'v collaborators =
  extractPublicParams :: "'v CaseParams \<Rightarrow> 'v CaseParams"
  mergeParams :: "'v CaseParams \<Rightarrow> 'v CaseParams \<Rightarrow> 'v CaseParams"
  stringifyPublicParams :: "'v CaseParams \<Rightarrow> exn + string"
  stringifyPublicParamsUniquely :: "'v CaseParams \<Rightarrow> string"
  kPathSeparator :: string
  validQueryPart :: "string \<Rightarrow> bool"
  validQueryPart_source :: string
  decodeURIComponent :: "string \<Rightarrow> exn + string"

text \<open>
  A fixture class: its constructor (called with the recorder and the parameters), and
  the \<^verbatim>\<open>init\<close> and \<^verbatim>\<open>finalize\<close> methods of an instance. Each may throw; \<^verbatim>\<open>init\<close>
  and the test function may change the instance before they return or throw.
\<close>

record ('v, 'f) FixtureClass =
  fixture_new :: "'v CaseParams \<Rightarrow> exn + 'f"
  fixture_init :: "'f \<Rightarrow> exn option \<times> 'f"
  fixture_finalize :: "'f \<Rightarrow> exn option"

type_synonym 'f TestFn = "'f \<Rightarrow> exn option \<times> 'f"

text \<open>
  An \<^verbatim>\<open>Error\<close> object as the code reads it: its message, and the \<^verbatim>\<open>stack\<close>
  property, which the runtime may or may not provide.
\<close>

record ErrorObject =
  err_message :: string
  err_stack :: "string option"

subsection \<open>TestBuilder\<close>

record ('v, 'f) TestBuilder =
  testPath :: "string list"
  description :: "string option"
  fixture :: "('v, 'f) FixtureClass"
  testFn :: "'f TestFn option"
  caseParams :: "nat option"
  subcaseParams :: "('v CaseParams \<Rightarrow> 'v CaseParams iteration) option"
  testCreationStack :: ErrorObject

definition TestBuilder_new ::
  "string list \<Rightarrow> ('v, 'f) FixtureClass \<Rightarrow> ErrorObject \<Rightarrow> ('v, 'f) TestBuilder" where
  "TestBuilder_new path fx st =
     \<lparr>testPath = path, description = None, fixture = fx, testFn = None,
      caseParams = None, subcaseParams = None, testCreationStack = st\<rparr>"

definition TestBuilder_fn ::
  "('v, 'f) TestBuilder \<Rightarrow> 'f TestFn \<Rightarrow> exn + ('v, 'f) TestBuilder" where
  "TestBuilder_fn b f =
     (case assert (testFn b = None) [] of
        Inl e \<Rightarrow> Inl e
      | Inr _ \<Rightarrow> Inr (b\<lparr>testFn := Some f\<rparr>))"

text \<open>The body \<^verbatim>\<open>unimplemented\<close> attaches: it throws, and leaves the fixture alone.\<close>

definition unimplemented_fn :: "'f TestFn" where
  "unimplemented_fn inst = (Some (SkipTestCase ''test unimplemented''), inst)"

definition TestBuilder_unimplemented ::
  "('v, 'f) TestBuilder \<Rightarrow> exn + ('v, 'f) TestBuilder" where
  "TestBuilder_unimplemented b =
     (case assert (testFn b = None) [] of
        Inl e \<Rightarrow> Inl e
      | Inr _ \<Rightarrow>
          Inr (b\<lparr>description :=
                   Some ((case description b of
                            None \<Rightarrow> []
                          | Some d \<Rightarrow> if d = [] then [] else d @ [CHR 0x0A, CHR 0x0A])
                         @ ''TODO: .unimplemented()''),
                 testFn := Some unimplemented_fn\<rparr>))"

text \<open>
  \<^verbatim>\<open>cases\<close> takes the caller's iterable by reference and stores a reference to the
  array \<^verbatim>\<open>Array.from\<close> makes of it; \<^verbatim>\<open>params\<close> is its deprecated alias.
\<close>

definition TestBuilder_cases ::
  "'v CaseParams heap \<Rightarrow> ('v, 'f) TestBuilder \<Rightarrow> nat \<Rightarrow>
   (exn + ('v, 'f) TestBuilder) \<times> 'v CaseParams heap" where
  "TestBuilder_cases h b casesIterable =
     (case assert (caseParams b = None) ''test case is already parameterized'' of
        Inl e \<Rightarrow> (Inl e, h)
      | Inr _ \<Rightarrow>
          (case Array_from h casesIterable of
             (Inl e, h1) \<Rightarrow> (Inl e, h1)
           | (Inr a, h1) \<Rightarrow> (Inr (b\<lparr>caseParams := Some a\<rparr>), h1)))"

definition TestBuilder_params ::
  "'v CaseParams heap \<Rightarrow> ('v, 'f) TestBuilder \<Rightarrow> nat \<Rightarrow>
   (exn + ('v, 'f) TestBuilder) \<times> 'v CaseParams heap" where
  "TestBuilder_params h b casesIterable = TestBuilder_cases h b casesIterable"

definition TestBuilder_subcases ::
  "('v, 'f) TestBuilder \<Rightarrow> ('v CaseParams \<Rightarrow> 'v CaseParams iteration) \<Rightarrow>
   exn + ('v, 'f) TestBuilder" where
  "TestBuilder_subcases b specs =
     (case assert (subcaseParams b = None) ''test subcases are already parameterized'' of
        Inl e \<Rightarrow> Inl e
      | Inr _ \<Rightarrow> Inr (b\<lparr>subcaseParams := Some specs\<rparr>))"

text \<open>
  \<^verbatim>\<open>validate\<close>: the loop over the attached cases, with the set \<^verbatim>\<open>seen\<close> of the
  unique renderings met so far. It stops at the first exception.
\<close>

fun validate_cases ::
  "'v collaborators \<Rightarrow> string \<Rightarrow> string set \<Rightarrow> 'v CaseParams list \<Rightarrow> exn + string set" where
  "validate_cases U testPathString seen_keys [] = Inr seen_keys"
| "validate_cases U testPathString seen_keys (testcase # rest) =
     (case stringifyPublicParams U testcase of
        Inl e \<Rightarrow> Inl e
      | Inr testcaseString \<Rightarrow>
          (let testcaseStringUnique = stringifyPublicParamsUniquely U testcase in
           case assert (testcaseStringUnique \<notin> seen_keys)
                  (''Duplicate public test case params for test '' @ testPathString
                   @ '': '' @ testcaseString) of
             Inl e \<Rightarrow> Inl e
           | Inr _ \<Rightarrow>
               validate_cases U testPathString (insert testcaseStringUnique seen_keys) rest))"

text \<open>
  The message of the first assertion of \<^verbatim>\<open>validate\<close>; the stack of the error made
  when the test was declared is appended when it is there and not empty.
\<close>

definition missing_fn_message :: "string \<Rightarrow> ErrorObject \<Rightarrow> string" where
  "missing_fn_message testPathString st =
     ''Test is missing .fn(): '' @ testPathString
     @ (case err_stack st of
          None \<Rightarrow> []
        | Some s \<Rightarrow>
            if s = [] then []
            else [CHR 0x0A] @ ''-> test created at:'' @ [CHR 0x0A] @ s)"

definition TestBuilder_validate ::
  "'v collaborators \<Rightarrow> 'v CaseParams heap \<Rightarrow> ('v, 'f) TestBuilder \<Rightarrow>
   (exn + unit) \<times> 'v CaseParams heap" where
  "TestBuilder_validate U h b =
     (let testPathString = Array_join (testPath b) (kPathSeparator U) in
      case assert (testFn b \<noteq> None) (missing_fn_message testPathString (testCreationStack b)) of
        Inl e \<Rightarrow> (Inl e, h)
      | Inr _ \<Rightarrow>
          (case caseParams b of
             None \<Rightarrow> (Inr (), h)
           | Some a \<Rightarrow>
               (case for_of h a of
                  ((cs, eo), h1) \<Rightarrow>
                    (case validate_cases U testPathString {} cs of
                       Inl e \<Rightarrow> (Inl e, h1)
                     | Inr _ \<Rightarrow>
                         (case eo of Some e \<Rightarrow> (Inl e, h1) | None \<Rightarrow> (Inr (), h1))))))"

subsection \<open>RunCaseSpecific\<close>

record 'v TestCaseID =
  id_test :: "string list"
  id_params :: "'v CaseParams"

record ('v, 'f) RunCaseSpecific =
  rc_id :: "'v TestCaseID"
  rc_params :: "'v CaseParams"
  rc_subParamGen :: "('v CaseParams \<Rightarrow> 'v CaseParams iteration) option"
  rc_fixture :: "('v, 'f) FixtureClass"
  rc_fn :: "'f TestFn"

definition RunCaseSpecific_new ::
  "'v collaborators \<Rightarrow> string list \<Rightarrow> 'v CaseParams \<Rightarrow>
   ('v CaseParams \<Rightarrow> 'v CaseParams iteration) option \<Rightarrow> ('v, 'f) FixtureClass \<Rightarrow>
   'f TestFn \<Rightarrow> ('v, 'f) RunCaseSpecific" where
  "RunCaseSpecific_new U path ps gen fx f =
     \<lparr>rc_id = \<lparr>id_test = path, id_params = extractPublicParams U ps\<rparr>,
      rc_params = ps, rc_subParamGen = gen, rc_fixture = fx, rc_fn = f\<rparr>"

text \<open>
  \<^verbatim>\<open>iterate\<close> is a generator: what its consumer observes is the run cases it yields and
  the exception that ends it, if any. Its assertion fails before the first run case;
  without attached cases it yields one run case for the empty record.
\<close>

definition TestBuilder_iterate ::
  "'v collaborators \<Rightarrow> 'v CaseParams heap \<Rightarrow> ('v, 'f) TestBuilder \<Rightarrow>
   ('v, 'f) RunCaseSpecific iteration \<times> 'v CaseParams heap" where
  "TestBuilder_iterate U h b =
     (case testFn b of
        None \<Rightarrow> (([], Some (AssertionError ''No test function (.fn()) for test'')), h)
      | Some f \<Rightarrow>
          (case (case caseParams b of None \<Rightarrow> (([[]], None), h) | Some a \<Rightarrow> for_of h a) of
             ((cs, eo), h1) \<Rightarrow>
               ((map (\<lambda>ps. RunCaseSpecific_new U (testPath b) ps (subcaseParams b)
                              (fixture b) f) cs, eo), h1)))"

text \<open>
  The calls a run case makes on its collaborators, in order: the methods of the recorder
  with their arguments, the constructor of the fixture with the parameters it is given,
  and \<^verbatim>\<open>init\<close>, the test function and \<^verbatim>\<open>finalize\<close> on the instance. A call is
  listed when it is made, whether it returns or throws.
\<close>

datatype 'v call =
    Rec_start
  | Rec_info exn
  | Rec_debug exn
  | Rec_threw exn
  | Rec_skipped exn
  | Rec_finish
  | Fixture_new "'v CaseParams"
  | Fixture_init
  | Test_fn
  | Fixture_finalize

text \<open>The inner \<^verbatim>\<open>try\<close> block of \<^verbatim>\<open>runTest\<close>: \<^verbatim>\<open>init\<close>, then the test function.\<close>

definition init_then_fn ::
  "('v, 'f) RunCaseSpecific \<Rightarrow> 'f \<Rightarrow> exn option \<times> 'v call list \<times> 'f" where
  "init_then_fn rc inst =
     (case fixture_init (rc_fixture rc) inst of
        (Some e, inst1) \<Rightarrow> (Some e, [Fixture_init], inst1)
      | (None, inst1) \<Rightarrow>
          (case rc_fn rc inst1 of (r, inst2) \<Rightarrow> (r, [Fixture_init, Test_fn], inst2)))"

text \<open>
  The outer \<^verbatim>\<open>try\<close> block: the constructor, then the inner block with its
  \<^verbatim>\<open>finally\<close>. An exception of \<^verbatim>\<open>finalize\<close> replaces the one the inner block ended
  with.
\<close>

definition construct_and_run ::
  "('v, 'f) RunCaseSpecific \<Rightarrow> 'v CaseParams \<Rightarrow> exn option \<times> 'v call list" where
  "construct_and_run rc ps =
     (case fixture_new (rc_fixture rc) ps of
        Inl e \<Rightarrow> (Some e, [Fixture_new ps])
      | Inr inst \<Rightarrow>
          (case init_then_fn rc inst of
             (r, calls, inst2) \<Rightarrow>
               (case fixture_finalize (rc_fixture rc) inst2 of
                  Some e \<Rightarrow> (Some e, Fixture_new ps # calls @ [Fixture_finalize])
                | None \<Rightarrow> (r, Fixture_new ps # calls @ [Fixture_finalize]))))"

definition runTest ::
  "('v, 'f) RunCaseSpecific \<Rightarrow> 'v CaseParams \<Rightarrow> bool \<Rightarrow> exn option \<times> 'v call list" where
  "runTest rc ps throwSkip =
     (case construct_and_run rc ps of
        (None, calls) \<Rightarrow> (None, calls)
      | (Some ex, calls) \<Rightarrow>
          if throwSkip \<and> is_SkipTestCase ex then (Some ex, calls)
          else (None, calls @ [Rec_threw ex]))"

text \<open>
  The body of the loop over the subcases, for the subcases in turn; it returns the calls
  made and the two counters. The \<^verbatim>\<open>catch\<close> of the loop leaves no exception to
  propagate.
\<close>

fun run_subcases ::
  "'v collaborators \<Rightarrow> ('v, 'f) RunCaseSpecific \<Rightarrow> 'v CaseParams list \<Rightarrow> nat \<Rightarrow> nat \<Rightarrow>
   'v call list \<times> nat \<times> nat" where
  "run_subcases U rc [] totalCount skipCount = ([], totalCount, skipCount)"
| "run_subcases U rc (subParams # rest) totalCount skipCount =
     (case runTest rc (mergeParams U (rc_params rc) subParams) True of
        (r, calls) \<Rightarrow>
          (case (case r of
                   None \<Rightarrow> ([], skipCount)
                 | Some (SkipTestCase m) \<Rightarrow>
                     ([Rec_debug (SkipTestCase (''subcase skipped: '' @ m))], skipCount + 1)
                 | Some ex \<Rightarrow> ([Rec_threw ex], skipCount)) of
             (caught, skipCount1) \<Rightarrow>
               (case run_subcases U rc rest (totalCount + 1) skipCount1 of
                  (later, t, s) \<Rightarrow>
                    (Rec_info (JSError (''subcase: '' @ stringifyPublicParamsUniquely U subParams))
                     # calls @ caught @ later, t, s))))"

text \<open>
  The calls of one pass of that loop, in closed form: the note naming the subcase, the
  calls of its trial, and the call of the \<^verbatim>\<open>catch\<close> block if the trial threw.
\<close>

definition subcase_calls ::
  "'v collaborators \<Rightarrow> ('v, 'f) RunCaseSpecific \<Rightarrow> 'v CaseParams \<Rightarrow> 'v call list" where
  "subcase_calls U rc subParams =
     Rec_info (JSError (''subcase: '' @ stringifyPublicParamsUniquely U subParams))
     # snd (runTest rc (mergeParams U (rc_params rc) subParams) True)
     @ (case fst (runTest rc (mergeParams U (rc_params rc) subParams) True) of
          None \<Rightarrow> []
        | Some (SkipTestCase m) \<Rightarrow> [Rec_debug (SkipTestCase (''subcase skipped: '' @ m))]
        | Some ex \<Rightarrow> [Rec_threw ex])"

text \<open>
  \<^verbatim>\<open>run\<close>: the exception that propagates to the caller, if any, and the calls made.
  An exception of the subcase generator ends the loop and \<^verbatim>\<open>run\<close> with it.
\<close>

definition run ::
  "'v collaborators \<Rightarrow> ('v, 'f) RunCaseSpecific \<Rightarrow> exn option \<times> 'v call list" where
  "run U rc =
     (case rc_subParamGen rc of
        Some gen \<Rightarrow>
          (case gen (rc_params rc) of
             (subs, eo) \<Rightarrow>
               (case run_subcases U rc subs 0 0 of
                  (calls, totalCount, skipCount) \<Rightarrow>
                    (case eo of
                       Some e \<Rightarrow> (Some e, Rec_start # calls)
                     | None \<Rightarrow>
                         (None,
                          Rec_start # calls
                          @ (if skipCount = totalCount
                             then [Rec_skipped (SkipTestCase ''all subcases were skipped'')]
                             else [])
                          @ [Rec_finish]))))
      | None \<Rightarrow>
          (case runTest rc (rc_params rc) False of
             (Some e, calls) \<Rightarrow> (Some e, Rec_start # calls)
           | (None, calls) \<Rightarrow> (None, Rec_start # calls @ [Rec_finish])))"

subsection \<open>TestGroup\<close>

record ('v, 'f) TestGroup =
  group_fixture :: "('v, 'f) FixtureClass"
  seen :: "string set"
  tests :: "('v, 'f) TestBuilder list"

definition TestGroup_new :: "('v, 'f) FixtureClass \<Rightarrow> ('v, 'f) TestGroup" where
  "TestGroup_new fx = \<lparr>group_fixture = fx, seen = {}, tests = []\<rparr>"

definition makeTestGroup :: "('v, 'f) FixtureClass \<Rightarrow> ('v, 'f) TestGroup" where
  "makeTestGroup fx = TestGroup_new fx"

definition TestGroup_iterate :: "('v, 'f) TestGroup \<Rightarrow> ('v, 'f) TestBuilder list" where
  "TestGroup_iterate g = tests g"

definition checkName ::
  "'v collaborators \<Rightarrow> ('v, 'f) TestGroup \<Rightarrow> string \<Rightarrow> (exn + unit) \<times> ('v, 'f) TestGroup" where
  "checkName U g name =
     (case decodeURIComponent U name of
        Inl e \<Rightarrow> (Inl e, g)
      | Inr decoded \<Rightarrow>
          (case assert (name = decoded)
                  (''Not decodeURIComponent-idempotent: '' @ name @ '' !== '' @ decoded) of
             Inl e \<Rightarrow> (Inl e, g)
           | Inr _ \<Rightarrow>
               (case assert (name \<notin> seen g) (''Duplicate test name: '' @ name) of
                  Inl e \<Rightarrow> (Inl e, g)
                | Inr _ \<Rightarrow> (Inr (), g\<lparr>seen := insert name (seen g)\<rparr>))))"

text \<open>
  \<^verbatim>\<open>test\<close>. The stack of the \<^verbatim>\<open>Error\<close> made on entry is the runtime's to give, so it
  is an argument here. The loop over the parts stops at the first that does not match.
\<close>

definition TestGroup_test ::
  "'v collaborators \<Rightarrow> ('v, 'f) TestGroup \<Rightarrow> string \<Rightarrow> string option \<Rightarrow>
   (exn + ('v, 'f) TestBuilder) \<times> ('v, 'f) TestGroup" where
  "TestGroup_test U g name stk =
     (let st = \<lparr>err_message = ''Test created: '' @ name, err_stack = stk\<rparr> in
      case checkName U g name of
        (Inl e, g1) \<Rightarrow> (Inl e, g1)
      | (Inr _, g1) \<Rightarrow>
          (let parts = String_split name (kPathSeparator U) in
           case find (\<lambda>p. \<not> validQueryPart U p) parts of
             Some p \<Rightarrow>
               (Inl (AssertionError (''Invalid test name part '' @ p @ ''; must match ''
                                     @ validQueryPart_source U)), g1)
           | None \<Rightarrow>
               (let t = TestBuilder_new parts (group_fixture g1) st in
                (Inr t, g1\<lparr>tests := tests g1 @ [t]\<rparr>))))"

fun validate_all ::
  "'v collaborators \<Rightarrow> 'v CaseParams heap \<Rightarrow> ('v, 'f) TestBuilder list \<Rightarrow>
   (exn + unit) \<times> 'v CaseParams heap" where
  "validate_all U h [] = (Inr (), h)"
| "validate_all U h (t # ts) =
     (case TestBuilder_validate U h t of
        (Inl e, h1) \<Rightarrow> (Inl e, h1)
      | (Inr _, h1) \<Rightarrow> validate_all U h1 ts)"

definition TestGroup_validate ::
  "'v collaborators \<Rightarrow> 'v CaseParams heap \<Rightarrow> ('v, 'f) TestGroup \<Rightarrow>
   (exn + unit) \<times> 'v CaseParams heap" where
  "TestGroup_validate U h g = validate_all U h (tests g)"

text \<open>
  What relates the two fields of a group: the joined path of every declaration is in
  \<^verbatim>\<open>seen\<close>, and a name in \<^verbatim>\<open>seen\<close> is the joined path of a declaration or has a
  part that is not valid (\<^verbatim>\<open>checkName\<close> adds the name before the parts are checked).
\<close>

definition group_inv :: "'v collaborators \<Rightarrow> ('v, 'f) TestGroup \<Rightarrow> bool" where
  "group_inv U g =
     ((\<forall>b \<in> set (tests g). Array_join (testPath b) (kPathSeparator U) \<in> seen g)
      \<and> (\<forall>n \<in> seen g.
            (\<exists>b \<in> set (tests g). Array_join (testPath b) (kPathSeparator U) = n)
            \<or> (\<exists>p \<in> set (String_split n (kPathSeparator U)). \<not> validQueryPart U p)))"

subsection \<open>Reading a trace\<close>

fun is_recorder_call :: "'v call \<Rightarrow> bool" where
  "is_recorder_call (Fixture_new ps) = False"
| "is_recorder_call Fixture_init = False"
| "is_recorder_call Test_fn = False"
| "is_recorder_call Fixture_finalize = False"
| "is_recorder_call c = True"

fun is_Fixture_new :: "'v call \<Rightarrow> bool" where
  "is_Fixture_new (Fixture_new ps) = True"
| "is_Fixture_new c = False"

fun is_Rec_skipped :: "'v call \<Rightarrow> bool" where
  "is_Rec_skipped (Rec_skipped e) = True"
| "is_Rec_skipped c = False"

fun is_Rec_debug :: "'v call \<Rightarrow> bool" where
  "is_Rec_debug (Rec_debug e) = True"
| "is_Rec_debug c = False"

fun is_Rec_threw :: "'v call \<Rightarrow> bool" where
  "is_Rec_threw (Rec_threw e) = True"
| "is_Rec_threw c = False"

text \<open>
  The trial of a subcase re-raises the skip signal: \<^verbatim>\<open>runTest\<close>, called by the loop of
  \<^verbatim>\<open>run\<close> with the merged parameters, throws a \<^verbatim>\<open>SkipTestCase\<close>. \<open>skip_message\<close>
  is the message it carries then.
\<close>

definition subcase_skips ::
  "'v collaborators \<Rightarrow> ('v, 'f) RunCaseSpecific \<Rightarrow> 'v CaseParams \<Rightarrow> bool" where
  "subcase_skips U rc subParams =
     (case fst (runTest rc (mergeParams U (rc_params rc) subParams) True) of
        Some ex \<Rightarrow> is_SkipTestCase ex
      | None \<Rightarrow> False)"

definition skip_message ::
  "'v collaborators \<Rightarrow> ('v, 'f) RunCaseSpecific \<Rightarrow> 'v CaseParams \<Rightarrow> string" where
  "skip_message U rc subParams =
     (case fst (runTest rc (mergeParams U (rc_params rc) subParams) True) of
        Some (SkipTestCase m) \<Rightarrow> m
      | _ \<Rightarrow> [])"

subsection \<open>A concrete instance\<close>

text \<open>
  Collaborators to run the definitions on: parameter values with two zeros that print
  alike and have different unique renderings, keys that are private when they start with
  an underscore, the comma as separator, word characters as the valid parts of a name,
  and percent-decoding of escapes below \<^verbatim>\<open>%80\<close> (an escape from \<^verbatim>\<open>%80\<close> on starts a
  multi-byte sequence, which this instance does not decode and refuses).
\<close>

datatype demo_value = Zero | NegZero | One | Two

fun render_value :: "demo_value \<Rightarrow> string" where
  "render_value Zero = ''0''"
| "render_value NegZero = ''0''"
| "render_value One = ''1''"
| "render_value Two = ''2''"

fun render_value_uniquely :: "demo_value \<Rightarrow> string" where
  "render_value_uniquely NegZero = ''-0''"
| "render_value_uniquely v = render_value v"

definition is_public_key :: "string \<Rightarrow> bool" where
  "is_public_key k = (case k of [] \<Rightarrow> True | c # cs \<Rightarrow> c \<noteq> CHR ''_'')"

definition demo_public :: "demo_value CaseParams \<Rightarrow> demo_value CaseParams" where
  "demo_public ps = filter (\<lambda>kv. is_public_key (fst kv)) ps"

definition demo_render :: "(demo_value \<Rightarrow> string) \<Rightarrow> demo_value CaseParams \<Rightarrow> string" where
  "demo_render f ps = Array_join (map (\<lambda>kv. fst kv @ ''='' @ f (snd kv)) (demo_public ps)) '';''"

definition is_word_char :: "char \<Rightarrow> bool" where
  "is_word_char c =
     (let n = (of_char c :: nat) in
      (48 \<le> n \<and> n \<le> 57) \<or> (65 \<le> n \<and> n \<le> 90) \<or> (97 \<le> n \<and> n \<le> 122) \<or> n = 95)"

definition hex_digit :: "char \<Rightarrow> nat option" where
  "hex_digit c =
     (let n = (of_char c :: nat) in
      if 48 \<le> n \<and> n \<le> 57 then Some (n - 48)
      else if 65 \<le> n \<and> n \<le> 70 then Some (n - 55)
      else if 97 \<le> n \<and> n \<le> 102 then Some (n - 87)
      else None)"

fun pct_decode :: "string \<Rightarrow> exn + string" where
  "pct_decode [] = Inr []"
| "pct_decode (c # cs) =
     (if c = CHR ''%'' then
        (case cs of
           h1 # h2 # rest \<Rightarrow>
             (case (hex_digit h1, hex_digit h2) of
                (Some a, Some b) \<Rightarrow>
                  if 16 * a + b < 128
                  then (case pct_decode rest of
                          Inl e \<Rightarrow> Inl e
                        | Inr r \<Rightarrow> Inr (char_of (16 * a + b) # r))
                  else Inl (URIError ''URI malformed'')
              | _ \<Rightarrow> Inl (URIError ''URI malformed''))
         | _ \<Rightarrow> Inl (URIError ''URI malformed''))
      else (case pct_decode cs of Inl e \<Rightarrow> Inl e | Inr r \<Rightarrow> Inr (c # r)))"

definition demo :: "demo_value collaborators" where
  "demo =
     \<lparr>extractPublicParams = demo_public,
      mergeParams = (\<lambda>a b. a @ b),
      stringifyPublicParams = (\<lambda>ps. Inr (demo_render render_value ps)),
      stringifyPublicParamsUniquely = demo_render render_value_uniquely,
      kPathSeparator = '','',
      validQueryPart = (\<lambda>p. p \<noteq> [] \<and> list_all is_word_char p),
      validQueryPart_source = ''/^[a-zA-Z0-9_]+$/'',
      decodeURIComponent = pct_decode\<rparr>"

text \<open>
  A fixture that keeps the parameters it is constructed with and never throws, and one
  whose \<^verbatim>\<open>init\<close> throws.
\<close>

definition demo_fixture :: "(demo_value, demo_value CaseParams) FixtureClass" where
  "demo_fixture =
     \<lparr>fixture_new = Inr, fixture_init = (\<lambda>inst. (None, inst)),
      fixture_finalize = (\<lambda>inst. None)\<rparr>"

definition failing_init_fixture :: "(demo_value, demo_value CaseParams) FixtureClass" where
  "failing_init_fixture =
     \<lparr>fixture_new = Inr, fixture_init = (\<lambda>inst. (Some (JSError ''init failed''), inst)),
      fixture_finalize = (\<lambda>inst. None)\<rparr>"

text \<open>Test functions: one that skips when \<open>s\<close> is 1, one that passes.\<close>

definition skip_when_s_is_1 :: "demo_value CaseParams TestFn" where
  "skip_when_s_is_1 inst =
     (if map_of inst ''s'' = Some One then Some (SkipTestCase ''s is 1'') else None, inst)"

definition passing_fn :: "demo_value CaseParams TestFn" where
  "passing_fn inst = (None, inst)"

definition demo_stack :: "string \<Rightarrow> ErrorObject" where
  "demo_stack name =
     \<lparr>err_message = ''Test created: '' @ name,
      err_stack = Some (''Error: Test created: '' @ name)\<rparr>"

definition failing_new_fixture :: "(demo_value, demo_value CaseParams) FixtureClass" where
  "failing_new_fixture =
     \<lparr>fixture_new = (\<lambda>ps. Inl (JSError ''constructor failed'')),
      fixture_init = (\<lambda>inst. (None, inst)), fixture_finalize = (\<lambda>inst. None)\<rparr>"

text \<open>
  A fresh declaration \<open>a\<close>; a store whose only object is an array of two records,
  the first with a private key; the declaration with a body and that array as its cases;
  the same with a subcase generator too; and a run case for the empty record.
\<close>

definition demo_decl :: "(demo_value, demo_value CaseParams) TestBuilder" where
  "demo_decl = TestBuilder_new [''a''] demo_fixture (demo_stack ''a'')"

definition demo_heap :: "demo_value CaseParams heap" where
  "demo_heap = [JSArray [[(''x'', One), (''_hidden'', Two)], [(''x'', Two)]]]"

definition demo_cases_decl :: "(demo_value, demo_value CaseParams) TestBuilder" where
  "demo_cases_decl = demo_decl\<lparr>testFn := Some passing_fn, caseParams := Some 0\<rparr>"

definition demo_body_decl :: "(demo_value, demo_value CaseParams) TestBuilder" where
  "demo_body_decl = demo_decl\<lparr>testFn := Some passing_fn\<rparr>"

text \<open>A store whose only object is a one-shot iterator with two records left.\<close>

definition iterator_heap :: "demo_value CaseParams heap" where
  "iterator_heap = [JSIterator [[(''x'', One)], [(''x'', Two)]] None]"

definition demo_full_decl :: "(demo_value, demo_value CaseParams) TestBuilder" where
  "demo_full_decl =
     demo_decl\<lparr>testFn := Some passing_fn, caseParams := Some 0,
               subcaseParams := Some (\<lambda>ps. ([], None))\<rparr>"

definition demo_rc ::
  "(demo_value CaseParams \<Rightarrow> demo_value CaseParams iteration) option \<Rightarrow>
   (demo_value, demo_value CaseParams) FixtureClass \<Rightarrow> demo_value CaseParams TestFn \<Rightarrow>
   (demo_value, demo_value CaseParams) RunCaseSpecific" where
  "demo_rc gen fx f = RunCaseSpecific_new demo [''a''] [] gen fx f"

text \<open>The declaration \<open>a\<close> after \<^verbatim>\<open>unimplemented\<close>.\<close>

definition demo_unimplemented_decl :: "(demo_value, demo_value CaseParams) TestBuilder" where
  "demo_unimplemented_decl =
     demo_decl\<lparr>description := Some ''TODO: .unimplemented()'',
               testFn := Some unimplemented_fn\<rparr>"

text \<open>
  Subcase generators: one that throws after its first subcase, one that yields no
  subcase, one for \<open>s = 1\<close> and \<open>s = 2\<close>, and one for \<open>s = 1\<close> alone.
\<close>

definition throwing_gen :: "demo_value CaseParams \<Rightarrow> demo_value CaseParams iteration" where
  "throwing_gen ps = ([[(''s'', Two)]], Some (JSError ''generator failed''))"

definition no_subcases_gen :: "demo_value CaseParams \<Rightarrow> demo_value CaseParams iteration" where
  "no_subcases_gen ps = ([], None)"

definition s1_s2_gen :: "demo_value CaseParams \<Rightarrow> demo_value CaseParams iteration" where
  "s1_s2_gen ps = ([[(''s'', One)], [(''s'', Two)]], None)"

definition s1_gen :: "demo_value CaseParams \<Rightarrow> demo_value CaseParams iteration" where
  "s1_gen ps = ([[(''s'', One)]], None)"

text \<open>
  For validation: a store with an array of two equal records and an array of the two
  zeros; a declaration \<open>dup\<close> with the first array as its cases and no body, and the
  same with a body; a declaration \<open>zeros\<close> with a body and the second array; a
  declaration \<open>nobody\<close> without a body; the declaration \<open>a\<close> as \<^verbatim>\<open>test\<close> makes
  it when the runtime gives no stack; and the group of some declarations.
\<close>

definition dup_heap :: "demo_value CaseParams heap" where
  "dup_heap =
     [JSArray [[(''x'', One)], [(''x'', One)]], JSArray [[(''x'', Zero)], [(''x'', NegZero)]]]"

definition dup_decl :: "(demo_value, demo_value CaseParams) TestBuilder" where
  "dup_decl =
     (TestBuilder_new [''dup''] demo_fixture (demo_stack ''dup''))\<lparr>caseParams := Some 0\<rparr>"

definition dup_body_decl :: "(demo_value, demo_value CaseParams) TestBuilder" where
  "dup_body_decl = dup_decl\<lparr>testFn := Some passing_fn\<rparr>"

definition zeros_decl :: "(demo_value, demo_value CaseParams) TestBuilder" where
  "zeros_decl =
     (TestBuilder_new [''zeros''] demo_fixture (demo_stack ''zeros''))
       \<lparr>testFn := Some passing_fn, caseParams := Some 1\<rparr>"

definition nobody_decl :: "(demo_value, demo_value CaseParams) TestBuilder" where
  "nobody_decl = TestBuilder_new [''nobody''] demo_fixture (demo_stack ''nobody'')"

definition nostack_decl :: "(demo_value, demo_value CaseParams) TestBuilder" where
  "nostack_decl =
     TestBuilder_new [''a''] demo_fixture \<lparr>err_message = ''Test created: a'', err_stack = None\<rparr>"

definition demo_group ::
  "(demo_value, demo_value CaseParams) TestBuilder list \<Rightarrow>
   (demo_value, demo_value CaseParams) TestGroup" where
  "demo_group ts =
     \<lparr>group_fixture = demo_fixture,
      seen = set (map (\<lambda>b. Array_join (testPath b) '','') ts), tests = ts\<rparr>"

text \<open>The declaration that \<^verbatim>\<open>test('a,b')\<close> makes when the runtime gives no stack.\<close>

definition ab_decl :: "(demo_value, demo_value CaseParams) TestBuilder" where
  "ab_decl =
     TestBuilder_new [''a'', ''b''] demo_fixture
       \<lparr>err_message = ''Test created: a,b'', err_stack = None\<rparr>"

section \<open>Properties\<close>

subsection \<open>What a trial and the subcase loop call\<close>

lemma runTest_throws_only_skip:
  "fst (runTest rc ps throwSkip) = Some ex \<Longrightarrow> throwSkip \<and> is_SkipTestCase ex"
  by (auto simp: runTest_def split: prod.splits option.splits if_splits)

lemma runTest_calls:
  "set (snd (runTest rc ps throwSkip)) \<subseteq>
     {Fixture_new ps, Fixture_init, Test_fn, Fixture_finalize} \<union> range Rec_threw"
  by (auto simp: runTest_def construct_and_run_def init_then_fn_def
      split: sum.splits prod.splits option.splits if_splits)

lemma runTest_filters:
  "filter is_Rec_debug (snd (runTest rc ps throwSkip)) = []"
  "filter is_Rec_skipped (snd (runTest rc ps throwSkip)) = []"
  "Rec_start \<notin> set (snd (runTest rc ps throwSkip))"
  "Rec_finish \<notin> set (snd (runTest rc ps throwSkip))"
  "filter is_Fixture_new (snd (runTest rc ps throwSkip)) = [Fixture_new ps]"
  using runTest_calls [of rc ps throwSkip]
  by (auto simp: filter_empty_conv runTest_def construct_and_run_def init_then_fn_def
      split: sum.splits prod.splits option.splits if_splits)

lemma runTest_threw_when_not_propagated:
  "filter is_recorder_call (snd (runTest rc ps False)) =
     (case fst (construct_and_run rc ps) of None \<Rightarrow> [] | Some ex \<Rightarrow> [Rec_threw ex])"
  by (auto simp: runTest_def construct_and_run_def init_then_fn_def
      split: sum.splits prod.splits option.splits if_splits)

lemma run_subcases_eq:
  "run_subcases U rc subs t s =
     (concat (map (subcase_calls U rc) subs), t + length subs,
      s + length (filter (subcase_skips U rc) subs))"
proof (induction subs arbitrary: t s)
  case Nil
  show ?case by simp
next
  case (Cons sub subs)
  show ?case
    by (simp add: Cons.IH subcase_calls_def subcase_skips_def
        split: prod.splits option.splits exn.splits)
qed

lemma subcase_calls_filters:
  "filter is_Rec_skipped (subcase_calls U rc sub) = []"
  "Rec_start \<notin> set (subcase_calls U rc sub)"
  "Rec_finish \<notin> set (subcase_calls U rc sub)"
  "filter is_Rec_debug (subcase_calls U rc sub) =
     (if subcase_skips U rc sub
      then [Rec_debug (SkipTestCase (''subcase skipped: '' @ skip_message U rc sub))] else [])"
  "filter is_Fixture_new (subcase_calls U rc sub) =
     [Fixture_new (mergeParams U (rc_params rc) sub)]"
  using runTest_filters [of rc "mergeParams U (rc_params rc) sub" True]
  by (auto simp: subcase_calls_def subcase_skips_def skip_message_def
      split: option.splits exn.splits)


text \<open>The equations that evaluate a run of the concrete instance.\<close>

lemmas demo_run_simps = demo_rc_def RunCaseSpecific_new_def demo_def demo_fixture_def
  failing_init_fixture_def failing_new_fixture_def passing_fn_def skip_when_s_is_1_def
  unimplemented_fn_def throwing_gen_def no_subcases_gen_def s1_s2_gen_def s1_gen_def
  run_def runTest_def construct_and_run_def init_then_fn_def demo_render_def demo_public_def
  is_public_key_def subcase_skips_def skip_message_def

text \<open>The equations that evaluate the declarations and stores of the instance.\<close>

lemmas demo_decl_simps = demo_decl_def demo_body_decl_def demo_cases_decl_def
  demo_full_decl_def demo_unimplemented_decl_def TestBuilder_new_def demo_stack_def
  demo_heap_def iterator_heap_def lookup_def for_of_def Array_from_def assert_def
  TestBuilder_cases_def TestBuilder_validate_def TestBuilder_iterate_def
  missing_fn_message_def

lemmas demo_group_simps = dup_heap_def dup_decl_def dup_body_decl_def zeros_decl_def
  nobody_decl_def nostack_decl_def demo_group_def TestGroup_validate_def TestGroup_test_def
  TestGroup_new_def checkName_def String_split_def is_word_char_def

subsection \<open>The fixture is finalized\<close>

text \<open>
  C3. In a trial (\<^verbatim>\<open>runTest\<close>, with either value of \<^verbatim>\<open>throwSkip\<close>) whose fixture
  is constructed, \<^verbatim>\<open>finalize\<close> is called exactly once, whatever \<^verbatim>\<open>init\<close>, the test
  function and \<^verbatim>\<open>finalize\<close> itself do: return, throw an error or throw the skip signal.
  When the constructor throws, \<^verbatim>\<open>finalize\<close> is not called.
\<close>

theorem finalize_exactly_once:
  "(fixture_new (rc_fixture rc) ps = Inr inst \<longrightarrow>
      count_list (snd (runTest rc ps throwSkip)) Fixture_finalize = 1)
   \<and> (fixture_new (rc_fixture rc) ps = Inl e \<longrightarrow>
      count_list (snd (runTest rc ps throwSkip)) Fixture_finalize = 0)"
  by (auto simp: runTest_def construct_and_run_def init_then_fn_def
      split: sum.splits prod.splits option.splits if_splits)

theorem finalize_exactly_once_witness:
  "fixture_new (rc_fixture (demo_rc None failing_init_fixture passing_fn)) [(''x'', One)]
     = Inr [(''x'', One)]
   \<and> count_list (snd (runTest (demo_rc None failing_init_fixture passing_fn) [(''x'', One)] False))
       Fixture_finalize = 1
   \<and> count_list (snd (runTest (demo_rc None demo_fixture unimplemented_fn) [] True))
       Fixture_finalize = 1
   \<and> fixture_new (rc_fixture (demo_rc None failing_new_fixture passing_fn)) []
     = Inl (JSError ''constructor failed'')
   \<and> count_list (snd (runTest (demo_rc None failing_new_fixture passing_fn) [] False))
       Fixture_finalize = 0"
  using finalize_exactly_once [where rc = "demo_rc None failing_init_fixture passing_fn"
      and ps = "[(''x'', One)]" and inst = "[(''x'', One)]" and throwSkip = False]
    finalize_exactly_once [where rc = "demo_rc None demo_fixture unimplemented_fn"
      and ps = "[]" and inst = "[]" and throwSkip = True]
    finalize_exactly_once [where rc = "demo_rc None failing_new_fixture passing_fn"
      and ps = "[]" and e = "JSError ''constructor failed''" and throwSkip = False]
  by (simp add: demo_rc_def RunCaseSpecific_new_def failing_init_fixture_def
      failing_new_fixture_def demo_fixture_def)

subsection \<open>Case expansion\<close>

lemma for_of_array: "lookup h a = Some (JSArray xs) \<Longrightarrow> for_of h a = ((xs, None), h)"
  by (simp add: for_of_def)

lemma for_of_keeps_arrays:
  "lookup h a = Some (JSArray xs) \<Longrightarrow> lookup (snd (for_of h a')) a = Some (JSArray xs)"
  by (auto simp: for_of_def lookup_def nth_list_update split: option.splits jsobj.splits if_splits)









subsection \<open>Running a case\<close>

text \<open>
  C1, amended. A run case without a subcase generator makes exactly one trial: the
  fixture is constructed once, with the case parameters, and no exception leaves
  \<^verbatim>\<open>run\<close>. The exception the trial ends with, the skip signal like any other, is
  handed to the recorder by one call of \<^verbatim>\<open>threw\<close> between \<^verbatim>\<open>start\<close> and
  \<^verbatim>\<open>finish\<close>; \<^verbatim>\<open>run\<close> makes no other call on the recorder, and none of
  \<^verbatim>\<open>skipped\<close>. In particular, the single run case of a declaration marked
  unimplemented calls \<^verbatim>\<open>threw\<close> with the skip signal of the synthetic body, when the
  constructor, \<^verbatim>\<open>init\<close> and \<^verbatim>\<open>finalize\<close> of the fixture return.
\<close>

theorem run_without_subcases:
  "(rc_subParamGen rc = None \<longrightarrow>
      fst (run U rc) = None
      \<and> filter is_Fixture_new (snd (run U rc)) = [Fixture_new (rc_params rc)]
      \<and> filter is_recorder_call (snd (run U rc)) =
          Rec_start
          # (case fst (construct_and_run rc (rc_params rc)) of
               None \<Rightarrow> []
             | Some ex \<Rightarrow> [Rec_threw ex])
          @ [Rec_finish])
   \<and> (TestBuilder_unimplemented b = Inr b' \<and> caseParams b = None \<and> subcaseParams b = None
       \<and> fixture_new (fixture b) [] = Inr inst \<and> fixture_init (fixture b) inst = (None, inst1)
       \<and> fixture_finalize (fixture b) inst1 = None \<longrightarrow>
       (\<exists>rc'. TestBuilder_iterate U h b' = (([rc'], None), h)
          \<and> rc_subParamGen rc' = None
          \<and> run U rc' =
              (None, [Rec_start, Fixture_new [], Fixture_init, Test_fn, Fixture_finalize,
                      Rec_threw (SkipTestCase ''test unimplemented''), Rec_finish])))"
proof (intro conjI impI)
  assume none: "rc_subParamGen rc = None"
  obtain r calls where rt: "runTest rc (rc_params rc) False = (r, calls)"
    by (cases "runTest rc (rc_params rc) False")
  have r: "r = None"
    using runTest_throws_only_skip [of rc "rc_params rc" False] rt by (cases r) auto
  have run_eq: "run U rc = (None, Rec_start # calls @ [Rec_finish])"
    using none rt r by (simp add: run_def)
  show "fst (run U rc) = None"
    by (simp add: run_eq)
  show "filter is_Fixture_new (snd (run U rc)) = [Fixture_new (rc_params rc)]"
    using runTest_filters(5) [of rc "rc_params rc" False] rt by (simp add: run_eq)
  show "filter is_recorder_call (snd (run U rc)) =
          Rec_start
          # (case fst (construct_and_run rc (rc_params rc)) of
               None \<Rightarrow> []
             | Some ex \<Rightarrow> [Rec_threw ex])
          @ [Rec_finish]"
    using runTest_threw_when_not_propagated [of rc "rc_params rc"] rt by (simp add: run_eq)
next
  assume a: "TestBuilder_unimplemented b = Inr b' \<and> caseParams b = None \<and> subcaseParams b = None
       \<and> fixture_new (fixture b) [] = Inr inst \<and> fixture_init (fixture b) inst = (None, inst1)
       \<and> fixture_finalize (fixture b) inst1 = None"
  then have b': "testFn b' = Some unimplemented_fn" "caseParams b' = None"
      "subcaseParams b' = None" "fixture b' = fixture b"
    by (auto simp: TestBuilder_unimplemented_def assert_def split: if_splits)
  let ?rc = "RunCaseSpecific_new U (testPath b') [] None (fixture b) unimplemented_fn"
  have "TestBuilder_iterate U h b' = (([?rc], None), h)"
    using b' by (simp add: TestBuilder_iterate_def)
  moreover have "rc_subParamGen ?rc = None"
    by (simp add: RunCaseSpecific_new_def)
  moreover have "run U ?rc =
              (None, [Rec_start, Fixture_new [], Fixture_init, Test_fn, Fixture_finalize,
                      Rec_threw (SkipTestCase ''test unimplemented''), Rec_finish])"
    using a by (simp add: run_def runTest_def construct_and_run_def init_then_fn_def
        RunCaseSpecific_new_def unimplemented_fn_def)
  ultimately show "\<exists>rc'. TestBuilder_iterate U h b' = (([rc'], None), h)
          \<and> rc_subParamGen rc' = None
          \<and> run U rc' =
              (None, [Rec_start, Fixture_new [], Fixture_init, Test_fn, Fixture_finalize,
                      Rec_threw (SkipTestCase ''test unimplemented''), Rec_finish])"
    by blast
qed

theorem run_without_subcases_witness:
  "rc_subParamGen (demo_rc None failing_init_fixture passing_fn) = None
   \<and> filter is_recorder_call (snd (run demo (demo_rc None failing_init_fixture passing_fn)))
       = [Rec_start, Rec_threw (JSError ''init failed''), Rec_finish]
   \<and> TestBuilder_unimplemented demo_decl = Inr demo_unimplemented_decl
   \<and> fst (TestBuilder_iterate demo demo_heap demo_unimplemented_decl)
       = ([demo_rc None demo_fixture unimplemented_fn], None)
   \<and> filter is_recorder_call (snd (run demo (demo_rc None demo_fixture unimplemented_fn)))
       = [Rec_start, Rec_threw (SkipTestCase ''test unimplemented''), Rec_finish]"
  using run_without_subcases [where U = demo
      and rc = "demo_rc None failing_init_fixture passing_fn"]
    run_without_subcases [where U = demo and b = demo_decl and b' = demo_unimplemented_decl
      and inst = "[]" and ?inst1.0 = "[]" and h = demo_heap]
  by (simp add: demo_run_simps demo_decl_def demo_unimplemented_decl_def
      TestBuilder_new_def TestBuilder_unimplemented_def TestBuilder_iterate_def assert_def)

text \<open>
  The claim as stated has the recorder receive a skip event. The run case of the
  declaration \<open>a\<close> marked unimplemented calls \<^verbatim>\<open>threw\<close> with the skip signal, and
  does not call \<^verbatim>\<open>skipped\<close>.
\<close>

theorem unimplemented_threw_counterexample:
  "TestBuilder_unimplemented demo_decl = Inr demo_unimplemented_decl
   \<and> TestBuilder_iterate demo demo_heap demo_unimplemented_decl
       = (([demo_rc None demo_fixture unimplemented_fn], None), demo_heap)
   \<and> run demo (demo_rc None demo_fixture unimplemented_fn)
       = (None, [Rec_start, Fixture_new [], Fixture_init, Test_fn, Fixture_finalize,
                 Rec_threw (SkipTestCase ''test unimplemented''), Rec_finish])"
  by (simp add: demo_run_simps demo_decl_def demo_unimplemented_decl_def
      TestBuilder_new_def TestBuilder_unimplemented_def TestBuilder_iterate_def assert_def)

text \<open>
  C4, amended. In every execution of \<^verbatim>\<open>run\<close>, \<^verbatim>\<open>start\<close> is the first call and is
  made once. The only exception that leaves \<^verbatim>\<open>run\<close> is one thrown by the subcase
  generator or by the iteration over what it returns: whatever the constructor of the
  fixture, \<^verbatim>\<open>init\<close>, the test function and \<^verbatim>\<open>finalize\<close> throw is caught. When
  \<^verbatim>\<open>run\<close> returns, \<^verbatim>\<open>finish\<close> is the last call and is made once; when the generator
  throws, \<^verbatim>\<open>run\<close> ends with that exception and \<^verbatim>\<open>finish\<close> is not called.
\<close>

theorem run_brackets:
  "(\<exists>rest. snd (run U rc) = Rec_start # rest \<and> Rec_start \<notin> set rest)
   \<and> fst (run U rc) =
       (case rc_subParamGen rc of None \<Rightarrow> None | Some gen \<Rightarrow> snd (gen (rc_params rc)))
   \<and> (fst (run U rc) = None \<longrightarrow>
        (\<exists>mid. snd (run U rc) = Rec_start # mid @ [Rec_finish] \<and> Rec_finish \<notin> set mid))
   \<and> (fst (run U rc) \<noteq> None \<longrightarrow> Rec_finish \<notin> set (snd (run U rc)))"
proof (cases "rc_subParamGen rc")
  case None
  obtain r calls where rt: "runTest rc (rc_params rc) False = (r, calls)"
    by (cases "runTest rc (rc_params rc) False")
  have r: "r = None"
    using runTest_throws_only_skip [of rc "rc_params rc" False] rt by (cases r) auto
  have "Rec_start \<notin> set calls" "Rec_finish \<notin> set calls"
    using runTest_filters(3,4) [of rc "rc_params rc" False] rt by auto
  then show ?thesis
    using None rt r by (simp add: run_def)
next
  case (Some gen)
  obtain subs eo where g: "gen (rc_params rc) = (subs, eo)"
    by (cases "gen (rc_params rc)")
  let ?calls = "concat (map (subcase_calls U rc) subs)"
  have free: "Rec_start \<notin> set ?calls" "Rec_finish \<notin> set ?calls"
    using subcase_calls_filters(2,3) [of U rc] by auto
  show ?thesis
  proof (cases eo)
    case None
    then show ?thesis
      using Some g free by (simp add: run_def run_subcases_eq)
  next
    case (Some e)
    then show ?thesis
      using \<open>rc_subParamGen rc = Some gen\<close> g free by (simp add: run_def run_subcases_eq)
  qed
qed

theorem run_brackets_witness:
  "fst (run demo (demo_rc (Some s1_s2_gen) failing_init_fixture passing_fn)) = None
   \<and> hd (snd (run demo (demo_rc (Some s1_s2_gen) failing_init_fixture passing_fn))) = Rec_start
   \<and> last (snd (run demo (demo_rc (Some s1_s2_gen) failing_init_fixture passing_fn))) = Rec_finish
   \<and> fst (run demo (demo_rc (Some throwing_gen) demo_fixture passing_fn)) \<noteq> None
   \<and> Rec_finish \<notin> set (snd (run demo (demo_rc (Some throwing_gen) demo_fixture passing_fn)))"
  using run_brackets [of demo "demo_rc (Some s1_s2_gen) failing_init_fixture passing_fn"]
    run_brackets [of demo "demo_rc (Some throwing_gen) demo_fixture passing_fn"]
  by (simp add: demo_run_simps)

text \<open>
  The claim as stated fails where the subcase generator throws, here after its first
  subcase: the exception leaves \<^verbatim>\<open>run\<close>, and the trace ends without \<^verbatim>\<open>finish\<close>.
\<close>

theorem run_generator_throws_counterexample:
  "run demo (demo_rc (Some throwing_gen) demo_fixture passing_fn) =
     (Some (JSError ''generator failed''),
      [Rec_start, Rec_info (JSError ''subcase: s=2''), Fixture_new [(''s'', Two)],
       Fixture_init, Test_fn, Fixture_finalize])"
  by (simp add: demo_run_simps)




subsection \<open>Validation\<close>

lemma validate_cases_append:
  "validate_cases U p seen_keys (xs @ ys) =
     (case validate_cases U p seen_keys xs of
        Inl e \<Rightarrow> Inl e
      | Inr s \<Rightarrow> validate_cases U p s ys)"
  by (induction xs arbitrary: seen_keys) (auto simp: assert_def Let_def split: sum.splits)

lemma validate_cases_ok:
  "distinct (map (stringifyPublicParamsUniquely U) cs)
   \<Longrightarrow> set (map (stringifyPublicParamsUniquely U) cs) \<inter> seen_keys = {}
   \<Longrightarrow> \<forall>c \<in> set cs. \<not> isl (stringifyPublicParams U c)
   \<Longrightarrow> validate_cases U p seen_keys cs =
       Inr (seen_keys \<union> set (map (stringifyPublicParamsUniquely U) cs))"
proof (induction cs arbitrary: seen_keys)
  case Nil
  show ?case by simp
next
  case (Cons c cs)
  obtain str where str: "stringifyPublicParams U c = Inr str"
    using Cons.prems(3) by (cases "stringifyPublicParams U c") auto
  have fresh: "stringifyPublicParamsUniquely U c \<notin> seen_keys"
    using Cons.prems(2) by auto
  have "validate_cases U p (insert (stringifyPublicParamsUniquely U c) seen_keys) cs =
      Inr (insert (stringifyPublicParamsUniquely U c) seen_keys
           \<union> set (map (stringifyPublicParamsUniquely U) cs))"
    using Cons.prems by (intro Cons.IH) auto
  then show ?case
    using str fresh by (simp add: assert_def)
qed

lemma validate_cases_fails_on_seen:
  "\<exists>c \<in> set cs. stringifyPublicParamsUniquely U c \<in> seen_keys \<Longrightarrow>
   isl (validate_cases U p seen_keys cs)"
proof (induction cs arbitrary: seen_keys)
  case Nil
  then show ?case by simp
next
  case (Cons c cs)
  show ?case
  proof (cases "stringifyPublicParams U c")
    case (Inl e)
    then show ?thesis by simp
  next
    case (Inr str)
    show ?thesis
    proof (cases "stringifyPublicParamsUniquely U c \<in> seen_keys")
      case True
      then show ?thesis using Inr by (simp add: assert_def)
    next
      case False
      then have "\<exists>c' \<in> set cs. stringifyPublicParamsUniquely U c'
          \<in> insert (stringifyPublicParamsUniquely U c) seen_keys"
        using Cons.prems by auto
      then have "isl (validate_cases U p (insert (stringifyPublicParamsUniquely U c) seen_keys) cs)"
        by (rule Cons.IH)
      then show ?thesis using Inr False by (simp add: assert_def)
    qed
  qed
qed

lemma validate_cases_fails_on_duplicate:
  "\<not> distinct (map (stringifyPublicParamsUniquely U) cs) \<Longrightarrow>
   isl (validate_cases U p seen_keys cs)"
proof (induction cs arbitrary: seen_keys)
  case Nil
  then show ?case by simp
next
  case (Cons c cs)
  show ?case
  proof (cases "stringifyPublicParams U c")
    case (Inl e)
    then show ?thesis by simp
  next
    case (Inr str)
    show ?thesis
    proof (cases "stringifyPublicParamsUniquely U c \<in> seen_keys")
      case True
      then show ?thesis using Inr by (simp add: assert_def)
    next
      case False
      have "isl (validate_cases U p (insert (stringifyPublicParamsUniquely U c) seen_keys) cs)"
      proof (cases "distinct (map (stringifyPublicParamsUniquely U) cs)")
        case True
        then have "\<exists>c' \<in> set cs. stringifyPublicParamsUniquely U c'
            \<in> insert (stringifyPublicParamsUniquely U c) seen_keys"
          using Cons.prems by auto
        then show ?thesis by (rule validate_cases_fails_on_seen)
      next
        case False
        then show ?thesis by (rule Cons.IH)
      qed
      then show ?thesis using Inr False by (simp add: assert_def)
    qed
  qed
qed

lemma validate_heap:
  "snd (TestBuilder_validate U h b) =
     (case testFn b of
        None \<Rightarrow> h
      | Some f \<Rightarrow> (case caseParams b of None \<Rightarrow> h | Some a \<Rightarrow> snd (for_of h a)))"
  by (auto simp: TestBuilder_validate_def assert_def Let_def
      split: sum.splits option.splits prod.splits)

lemma validate_keeps_arrays:
  "lookup h a = Some (JSArray xs) \<Longrightarrow>
   lookup (snd (TestBuilder_validate U h b)) a = Some (JSArray xs)"
  by (simp add: validate_heap for_of_keeps_arrays split: option.splits)

lemma validate_all_keeps_arrays:
  "lookup h a = Some (JSArray xs) \<Longrightarrow>
   lookup (snd (validate_all U h ts)) a = Some (JSArray xs)"
proof (induction ts arbitrary: h)
  case Nil
  then show ?case by simp
next
  case (Cons t ts)
  obtain r h1 where v: "TestBuilder_validate U h t = (r, h1)"
    by (cases "TestBuilder_validate U h t")
  have h1: "lookup h1 a = Some (JSArray xs)"
    using validate_keeps_arrays [OF Cons.prems, of U t] v by simp
  show ?case
    using v h1 Cons.IH [OF h1] by (cases r) simp_all
qed

lemma validate_all_append:
  "validate_all U h (xs @ ys) =
     (case validate_all U h xs of
        (Inl e, h1) \<Rightarrow> (Inl e, h1)
      | (Inr u, h1) \<Rightarrow> validate_all U h1 ys)"
  by (induction xs arbitrary: h) (auto split: sum.splits prod.splits)

lemma validate_all_fails:
  "b \<in> set ts \<Longrightarrow> (\<And>h. isl (fst (TestBuilder_validate U h b))) \<Longrightarrow>
   isl (fst (validate_all U h ts))"
proof (induction ts arbitrary: h)
  case Nil
  then show ?case by simp
next
  case (Cons t ts)
  obtain r h1 where v: "TestBuilder_validate U h t = (r, h1)"
    by (cases "TestBuilder_validate U h t")
  show ?case
  proof (cases r)
    case (Inl e)
    then show ?thesis using v by simp
  next
    case (Inr u)
    then have "t \<noteq> b"
      using v Cons.prems(2) [of h] by auto
    then have "b \<in> set ts"
      using Cons.prems(1) by simp
    then show ?thesis
      using Inr v Cons.IH [of h1] Cons.prems(2) by simp
  qed
qed

text \<open>
  C7, amended. Validation of a group with a declaration that has no body fails. When
  every declaration before it in the group is valid, the failure is the assertion of
  that declaration: its message names the joined path of the test and, if the runtime
  recorded a non-empty stack when the test was declared, cites that stack; without a
  stack the message names the path only. (\<^verbatim>\<open>test\<close> stores the stack the runtime gives
  with the declaration.) When an earlier declaration is invalid, the diagnostic is that
  declaration's.
\<close>

theorem missing_body:
  "(b \<in> set (tests g) \<and> testFn b = None \<longrightarrow> isl (fst (TestGroup_validate U h g)))
   \<and> (tests g = before @ b # after \<and> validate_all U h before = (Inr (), h1)
       \<and> testFn b = None \<longrightarrow>
        (\<exists>msg. TestGroup_validate U h g = (Inl (AssertionError msg), h1)
           \<and> (\<forall>s. err_stack (testCreationStack b) = Some s \<and> s \<noteq> [] \<longrightarrow>
                msg = ''Test is missing .fn(): '' @ Array_join (testPath b) (kPathSeparator U)
                      @ [CHR 0x0A] @ ''-> test created at:'' @ [CHR 0x0A] @ s)
           \<and> (err_stack (testCreationStack b) = None
               \<or> err_stack (testCreationStack b) = Some [] \<longrightarrow>
                msg = ''Test is missing .fn(): '' @ Array_join (testPath b) (kPathSeparator U))))
   \<and> (TestGroup_test U g0 name stk = (Inr t, g') \<longrightarrow>
        testFn t = None
        \<and> testCreationStack t = \<lparr>err_message = ''Test created: '' @ name, err_stack = stk\<rparr>)"
proof (intro conjI impI)
  assume a: "b \<in> set (tests g) \<and> testFn b = None"
  then have f: "\<And>h. isl (fst (TestBuilder_validate U h b))"
    by (simp add: TestBuilder_validate_def assert_def)
  from a have "b \<in> set (tests g)"
    by simp
  then show "isl (fst (TestGroup_validate U h g))"
    unfolding TestGroup_validate_def by (rule validate_all_fails) (rule f)
next
  assume a: "tests g = before @ b # after \<and> validate_all U h before = (Inr (), h1)
       \<and> testFn b = None"
  let ?msg = "missing_fn_message (Array_join (testPath b) (kPathSeparator U)) (testCreationStack b)"
  have "TestGroup_validate U h g = (Inl (AssertionError ?msg), h1)"
    using a by (simp add: TestGroup_validate_def validate_all_append
        TestBuilder_validate_def assert_def)
  moreover have "\<forall>s. err_stack (testCreationStack b) = Some s \<and> s \<noteq> [] \<longrightarrow>
                ?msg = ''Test is missing .fn(): '' @ Array_join (testPath b) (kPathSeparator U)
                      @ [CHR 0x0A] @ ''-> test created at:'' @ [CHR 0x0A] @ s"
    by (simp add: missing_fn_message_def)
  moreover have "err_stack (testCreationStack b) = None
               \<or> err_stack (testCreationStack b) = Some [] \<longrightarrow>
                ?msg = ''Test is missing .fn(): '' @ Array_join (testPath b) (kPathSeparator U)"
    by (auto simp: missing_fn_message_def)
  ultimately show "\<exists>msg. TestGroup_validate U h g = (Inl (AssertionError msg), h1)
           \<and> (\<forall>s. err_stack (testCreationStack b) = Some s \<and> s \<noteq> [] \<longrightarrow>
                msg = ''Test is missing .fn(): '' @ Array_join (testPath b) (kPathSeparator U)
                      @ [CHR 0x0A] @ ''-> test created at:'' @ [CHR 0x0A] @ s)
           \<and> (err_stack (testCreationStack b) = None
               \<or> err_stack (testCreationStack b) = Some [] \<longrightarrow>
                msg = ''Test is missing .fn(): '' @ Array_join (testPath b) (kPathSeparator U))"
    by blast
next
  assume "TestGroup_test U g0 name stk = (Inr t, g')"
  then have "t = TestBuilder_new (String_split name (kPathSeparator U)) (group_fixture g0)
      \<lparr>err_message = ''Test created: '' @ name, err_stack = stk\<rparr>"
    by (auto simp: TestGroup_test_def checkName_def assert_def Let_def
        split: sum.splits prod.splits option.splits if_splits)
  then show "testFn t = None"
    "testCreationStack t = \<lparr>err_message = ''Test created: '' @ name, err_stack = stk\<rparr>"
    by (simp_all add: TestBuilder_new_def)
qed

theorem missing_body_witness:
  "nobody_decl \<in> set (tests (demo_group [zeros_decl, nobody_decl]))
   \<and> testFn nobody_decl = None
   \<and> validate_all demo dup_heap [zeros_decl] = (Inr (), dup_heap)
   \<and> err_stack (testCreationStack nobody_decl) = Some ''Error: Test created: nobody''
   \<and> TestGroup_validate demo dup_heap (demo_group [zeros_decl, nobody_decl])
       = (Inl (AssertionError (''Test is missing .fn(): nobody'' @ [CHR 0x0A]
                @ ''-> test created at:'' @ [CHR 0x0A] @ ''Error: Test created: nobody'')),
          dup_heap)
   \<and> TestGroup_test demo (TestGroup_new demo_fixture) ''a'' None
       = (Inr nostack_decl, demo_group [nostack_decl])
   \<and> err_stack (testCreationStack nostack_decl) = None
   \<and> TestGroup_validate demo [] (demo_group [nostack_decl])
       = (Inl (AssertionError ''Test is missing .fn(): a''), [])"
  using missing_body [where U = demo and h = dup_heap
      and g = "demo_group [zeros_decl, nobody_decl]" and b = nobody_decl
      and before = "[zeros_decl]" and after = "[]" and ?h1.0 = dup_heap
      and ?g0.0 = "TestGroup_new demo_fixture" and name = "''a''"
      and stk = None and t = nostack_decl and g' = "demo_group [nostack_decl]"]
    missing_body [where U = demo and h = "[]"
      and g = "demo_group [nostack_decl]" and b = nostack_decl
      and before = "[]" and after = "[]" and ?h1.0 = "[]", THEN conjunct2, THEN conjunct1]
  by (simp add: demo_group_simps demo_decl_simps demo_run_simps Let_def)

text \<open>
  The claim as stated has the diagnostic cite the origin of every declaration without a
  body. In the group of \<open>dup\<close> (with a body and two equal cases) and \<open>nobody\<close>,
  validation stops at \<open>dup\<close> and its diagnostic says nothing of \<open>nobody\<close>; and for
  the declaration \<open>a\<close> made without a stack, the diagnostic has only the path.
\<close>

theorem missing_body_other_diagnostic_counterexample:
  "testFn nobody_decl = None
   \<and> TestGroup_validate demo dup_heap (demo_group [dup_body_decl, nobody_decl])
       = (Inl (AssertionError ''Duplicate public test case params for test dup: x=1''), dup_heap)
   \<and> testFn nostack_decl = None
   \<and> TestGroup_test demo (TestGroup_new demo_fixture) ''a'' None
       = (Inr nostack_decl, demo_group [nostack_decl])
   \<and> TestGroup_validate demo [] (demo_group [nostack_decl])
       = (Inl (AssertionError ''Test is missing .fn(): a''), [])"
  by (simp add: demo_group_simps demo_decl_simps demo_run_simps Let_def)

text \<open>
  C6, amended. Validation of a group fails when the cases of one of its declarations
  hold two records with the same unique rendering. When that declaration has a body,
  every declaration before it is valid, and the records up to the first one that repeats
  an earlier unique rendering can be rendered, the failure cites the human-readable
  rendering of that record and the joined path. Records whose unique renderings are
  pairwise different do not fail validation, also when their human-readable renderings
  are the same.
\<close>

theorem duplicate_case_params:
  "(b \<in> set (tests g) \<and> caseParams b = Some a \<and> lookup h a = Some (JSArray cs)
      \<and> \<not> distinct (map (stringifyPublicParamsUniquely U) cs) \<longrightarrow>
      isl (fst (TestGroup_validate U h g)))
   \<and> (tests g = before @ b # after \<and> validate_all U h before = (Inr (), h1)
       \<and> testFn b \<noteq> None \<and> caseParams b = Some a
       \<and> lookup h1 a = Some (JSArray (pre @ c # post))
       \<and> distinct (map (stringifyPublicParamsUniquely U) pre)
       \<and> stringifyPublicParamsUniquely U c \<in> set (map (stringifyPublicParamsUniquely U) pre)
       \<and> (\<forall>x \<in> set pre. \<not> isl (stringifyPublicParams U x))
       \<and> stringifyPublicParams U c = Inr rendering \<longrightarrow>
        TestGroup_validate U h g =
          (Inl (AssertionError (''Duplicate public test case params for test ''
                 @ Array_join (testPath b) (kPathSeparator U) @ '': '' @ rendering)), h1))
   \<and> (testFn b \<noteq> None \<and> caseParams b = Some a \<and> lookup h a = Some (JSArray cs)
       \<and> distinct (map (stringifyPublicParamsUniquely U) cs)
       \<and> (\<forall>x \<in> set cs. \<not> isl (stringifyPublicParams U x)) \<longrightarrow>
        TestBuilder_validate U h b = (Inr (), h))"
proof (intro conjI impI)
  assume a: "b \<in> set (tests g) \<and> caseParams b = Some a \<and> lookup h a = Some (JSArray cs)
      \<and> \<not> distinct (map (stringifyPublicParamsUniquely U) cs)"
  have "isl (fst (validate_all U h' ts))"
    if "b \<in> set ts" and "lookup h' a = Some (JSArray cs)" for ts h'
    using that
  proof (induction ts arbitrary: h')
    case Nil
    then show ?case by simp
  next
    case (Cons t ts)
    obtain r h2 where v: "TestBuilder_validate U h' t = (r, h2)"
      by (cases "TestBuilder_validate U h' t")
    have h2: "lookup h2 a = Some (JSArray cs)"
      using validate_keeps_arrays [OF Cons.prems(2), of U t] v by simp
    show ?case
    proof (cases r)
      case (Inl e)
      then show ?thesis using v by simp
    next
      case (Inr u)
      have "isl (validate_cases U (Array_join (testPath b) (kPathSeparator U)) {} cs)"
        using a by (intro validate_cases_fails_on_duplicate) simp
      then obtain e where
        "validate_cases U (Array_join (testPath b) (kPathSeparator U)) {} cs = Inl e"
        by (cases "validate_cases U (Array_join (testPath b) (kPathSeparator U)) {} cs") auto
      then have "isl (fst (TestBuilder_validate U h' b))"
        using a Cons.prems(2)
        by (simp add: TestBuilder_validate_def assert_def for_of_array Let_def
            split: option.splits)
      then have "t \<noteq> b"
        using v Inr by auto
      then have "b \<in> set ts"
        using Cons.prems(1) by simp
      then show ?thesis
        using Inr v Cons.IH [OF _ h2] by simp
    qed
  qed
  then show "isl (fst (TestGroup_validate U h g))"
    using a by (simp add: TestGroup_validate_def)
next
  assume a: "tests g = before @ b # after \<and> validate_all U h before = (Inr (), h1)
       \<and> testFn b \<noteq> None \<and> caseParams b = Some a
       \<and> lookup h1 a = Some (JSArray (pre @ c # post))
       \<and> distinct (map (stringifyPublicParamsUniquely U) pre)
       \<and> stringifyPublicParamsUniquely U c \<in> set (map (stringifyPublicParamsUniquely U) pre)
       \<and> (\<forall>x \<in> set pre. \<not> isl (stringifyPublicParams U x))
       \<and> stringifyPublicParams U c = Inr rendering"
  let ?p = "Array_join (testPath b) (kPathSeparator U)"
  have pre: "validate_cases U ?p {} pre = Inr ({} \<union> set (map (stringifyPublicParamsUniquely U) pre))"
    using a by (intro validate_cases_ok) auto
  have "validate_cases U ?p {} (pre @ c # post) =
      Inl (AssertionError (''Duplicate public test case params for test '' @ ?p @ '': '' @ rendering))"
    using a by (simp add: validate_cases_append pre assert_def)
  then have "TestBuilder_validate U h1 b =
      (Inl (AssertionError (''Duplicate public test case params for test '' @ ?p @ '': '' @ rendering)), h1)"
    using a by (auto simp: TestBuilder_validate_def assert_def for_of_array Let_def)
  then show "TestGroup_validate U h g =
          (Inl (AssertionError (''Duplicate public test case params for test ''
                 @ Array_join (testPath b) (kPathSeparator U) @ '': '' @ rendering)), h1)"
    using a by (simp add: TestGroup_validate_def validate_all_append)
next
  assume a: "testFn b \<noteq> None \<and> caseParams b = Some a \<and> lookup h a = Some (JSArray cs)
       \<and> distinct (map (stringifyPublicParamsUniquely U) cs)
       \<and> (\<forall>x \<in> set cs. \<not> isl (stringifyPublicParams U x))"
  let ?p = "Array_join (testPath b) (kPathSeparator U)"
  have "validate_cases U ?p {} cs = Inr ({} \<union> set (map (stringifyPublicParamsUniquely U) cs))"
    using a by (intro validate_cases_ok) auto
  then show "TestBuilder_validate U h b = (Inr (), h)"
    using a by (auto simp: TestBuilder_validate_def assert_def for_of_array Let_def)
qed

theorem duplicate_case_params_witness:
  "dup_body_decl \<in> set (tests (demo_group [zeros_decl, dup_body_decl]))
   \<and> testFn dup_body_decl \<noteq> None
   \<and> caseParams dup_body_decl = Some 0
   \<and> lookup dup_heap 0 = Some (JSArray ([[(''x'', One)]] @ [(''x'', One)] # []))
   \<and> \<not> distinct (map (stringifyPublicParamsUniquely demo) [[(''x'', One)], [(''x'', One)]])
   \<and> validate_all demo dup_heap [zeros_decl] = (Inr (), dup_heap)
   \<and> stringifyPublicParams demo [(''x'', One)] = Inr ''x=1''
   \<and> TestGroup_validate demo dup_heap (demo_group [zeros_decl, dup_body_decl])
       = (Inl (AssertionError ''Duplicate public test case params for test dup: x=1''), dup_heap)
   \<and> caseParams zeros_decl = Some 1
   \<and> lookup dup_heap 1 = Some (JSArray [[(''x'', Zero)], [(''x'', NegZero)]])
   \<and> stringifyPublicParams demo [(''x'', Zero)] = Inr ''x=0''
   \<and> stringifyPublicParams demo [(''x'', NegZero)] = Inr ''x=0''
   \<and> distinct (map (stringifyPublicParamsUniquely demo) [[(''x'', Zero)], [(''x'', NegZero)]])
   \<and> TestBuilder_validate demo dup_heap zeros_decl = (Inr (), dup_heap)"
  using duplicate_case_params [where U = demo and h = dup_heap
      and g = "demo_group [zeros_decl, dup_body_decl]" and b = dup_body_decl and a = 0
      and cs = "[[(''x'', One)], [(''x'', One)]]" and before = "[zeros_decl]" and after = "[]"
      and ?h1.0 = dup_heap and pre = "[[(''x'', One)]]" and c = "[(''x'', One)]" and post = "[]"
      and rendering = "''x=1''"]
    duplicate_case_params [where U = demo and h = dup_heap and b = zeros_decl and a = 1
      and cs = "[[(''x'', Zero)], [(''x'', NegZero)]]"]
  by (simp add: demo_group_simps demo_decl_simps demo_run_simps)

text \<open>
  The claim as stated has the failure cite a rendering for every declaration with such
  cases. The declaration \<open>dup\<close> without a body fails the first assertion of
  \<^verbatim>\<open>validate\<close>, whose message is about the missing body and cites no record.
\<close>

theorem duplicate_without_body_counterexample:
  "caseParams dup_decl = Some 0
   \<and> lookup dup_heap 0 = Some (JSArray [[(''x'', One)], [(''x'', One)]])
   \<and> stringifyPublicParamsUniquely demo [(''x'', One)] = ''x=1''
   \<and> stringifyPublicParams demo [(''x'', One)] = Inr ''x=1''
   \<and> TestGroup_validate demo dup_heap (demo_group [dup_decl])
       = (Inl (AssertionError (''Test is missing .fn(): dup'' @ [CHR 0x0A]
                @ ''-> test created at:'' @ [CHR 0x0A] @ ''Error: Test created: dup'')),
          dup_heap)"
  by (simp add: demo_group_simps demo_decl_simps demo_run_simps)

subsection \<open>Declaring a test\<close>

text \<open>Joining the pieces of a split gives the string back.\<close>

lemma split_from_nonempty: "split_from s ss acc str \<noteq> []"
  by (induction s ss acc str rule: split_from.induct) auto

lemma Array_join_Cons:
  "ys \<noteq> [] \<Longrightarrow> Array_join (x # ys) sep = x @ sep @ Array_join ys sep"
  by (cases ys) simp_all

lemma join_split_from: "Array_join (split_from s ss acc str) (s # ss) = rev acc @ str"
proof (induction s ss acc str rule: split_from.induct)
  case (1 s ss acc)
  show ?case by simp
next
  case (2 s ss acc c cs)
  show ?case
  proof (cases "take (Suc (length ss)) (c # cs) = s # ss")
    case True
    then have "c = s" and "take (length ss) cs = ss"
      by simp_all
    then have cs: "c # cs = s # ss @ drop (length ss) cs"
      by (metis append_take_drop_id)
    have "Array_join (split_from s ss acc (c # cs)) (s # ss) =
        rev acc @ (s # ss) @ Array_join (split_from s ss [] (drop (length ss) cs)) (s # ss)"
      using True by (simp add: Array_join_Cons split_from_nonempty)
    also have "\<dots> = rev acc @ (s # ss) @ drop (length ss) cs"
      using "2.IH"(1) [OF True] by simp
    also have "\<dots> = rev acc @ c # cs"
      using cs by simp
    finally show ?thesis .
  next
    case False
    have "Array_join (split_from s ss acc (c # cs)) (s # ss) =
        Array_join (split_from s ss (c # acc) cs) (s # ss)"
      using False by auto
    then show ?thesis
      using "2.IH"(2) [OF False] by simp
  qed
qed

lemma join_chars: "Array_join (map (\<lambda>c. [c]) str) [] = str"
proof (induction str)
  case Nil
  show ?case by simp
next
  case (Cons c cs)
  then show ?case by (cases cs) simp_all
qed

lemma join_split: "Array_join (String_split str sep) sep = str"
proof (cases sep)
  case Nil
  then show ?thesis by (simp add: String_split_def join_chars)
next
  case (Cons s ss)
  then show ?thesis using join_split_from [of s ss "[]" str] by (simp add: String_split_def)
qed

lemma group_inv_new: "group_inv U (TestGroup_new fx)"
  by (simp add: group_inv_def TestGroup_new_def)

text \<open>
  The relation holds for a new group, and the methods of a declaration keep it, since
  they leave the path alone.
\<close>

lemma methods_keep_testPath:
  "TestBuilder_fn b f = Inr b' \<Longrightarrow> testPath b' = testPath b"
  "TestBuilder_unimplemented b = Inr b' \<Longrightarrow> testPath b' = testPath b"
  "TestBuilder_cases h b src = (Inr b', h') \<Longrightarrow> testPath b' = testPath b"
  "TestBuilder_subcases b specs = Inr b' \<Longrightarrow> testPath b' = testPath b"
  by (auto simp: TestBuilder_fn_def TestBuilder_unimplemented_def TestBuilder_cases_def
      TestBuilder_subcases_def assert_def split: if_splits sum.splits prod.splits)

lemma group_inv_alt:
  "group_inv U g =
     ((\<lambda>b. Array_join (testPath b) (kPathSeparator U)) ` set (tests g) \<subseteq> seen g
      \<and> (\<forall>n \<in> seen g.
            n \<in> (\<lambda>b. Array_join (testPath b) (kPathSeparator U)) ` set (tests g)
            \<or> (\<exists>p \<in> set (String_split n (kPathSeparator U)). \<not> validQueryPart U p)))"
  unfolding group_inv_def by (rule arg_cong2 [of _ _ _ _ "(\<and>)"]) auto

lemma group_inv_update:
  assumes "group_inv U g" and "i < length (tests g)" and "testPath b' = testPath (tests g ! i)"
  shows "group_inv U (g\<lparr>tests := (tests g)[i := b']\<rparr>)"
proof -
  let ?f = "\<lambda>b. Array_join (testPath b) (kPathSeparator U)"
  have "map ?f ((tests g)[i := b']) = (map ?f (tests g))[i := ?f (tests g ! i)]"
    using assms(3) by (simp add: map_update)
  also have "\<dots> = map ?f (tests g)"
    using assms(2) by (simp add: list_update_same_conv)
  finally have "set (map ?f ((tests g)[i := b'])) = set (map ?f (tests g))"
    by simp
  then have "?f ` set ((tests g)[i := b']) = ?f ` set (tests g)"
    by simp
  then show ?thesis
    using assms(1) by (simp add: group_inv_alt)
qed

lemma char_A: "char_of (65 :: nat) = CHR ''A''"
  by code_simp

text \<open>
  C8, amended. In a group whose fields are related as above (every group made by
  \<^verbatim>\<open>makeTestGroup\<close> and changed by \<^verbatim>\<open>test\<close> and the methods of its declarations
  is), \<^verbatim>\<open>test\<close> keeps the relation, and:
  when \<^verbatim>\<open>decodeURIComponent\<close> throws on the name, \<^verbatim>\<open>test\<close> fails with that
  exception, which is not an assertion failure, and the group is unchanged;
  when the name decodes to another string, or is the joined path of a declaration of
  the group, \<^verbatim>\<open>test\<close> fails by assertion and the group is unchanged;
  when the name decodes to itself and one of its parts is not valid, \<^verbatim>\<open>test\<close> fails
  by assertion and no declaration is added;
  otherwise a declaration whose path is the split name is made and appended, and the
  registry grows by one.
\<close>

theorem declare_test:
  "group_inv U g \<longrightarrow>
     (case TestGroup_test U g name stk of
        (r, g') \<Rightarrow>
          group_inv U g'
          \<and> (\<forall>e. decodeURIComponent U name = Inl e \<longrightarrow> r = Inl e \<and> g' = g)
          \<and> (\<forall>d. decodeURIComponent U name = Inr d \<and> d \<noteq> name \<longrightarrow>
                r = Inl (AssertionError (''Not decodeURIComponent-idempotent: '' @ name
                                          @ '' !== '' @ d)) \<and> g' = g)
          \<and> (decodeURIComponent U name = Inr name
              \<and> (\<exists>b \<in> set (tests g). Array_join (testPath b) (kPathSeparator U) = name) \<longrightarrow>
                r = Inl (AssertionError (''Duplicate test name: '' @ name)) \<and> g' = g)
          \<and> (decodeURIComponent U name = Inr name
              \<and> (\<exists>p \<in> set (String_split name (kPathSeparator U)). \<not> validQueryPart U p) \<longrightarrow>
                (\<exists>msg. r = Inl (AssertionError msg)) \<and> tests g' = tests g)
          \<and> (decodeURIComponent U name = Inr name
              \<and> (\<forall>b \<in> set (tests g). Array_join (testPath b) (kPathSeparator U) \<noteq> name)
              \<and> (\<forall>p \<in> set (String_split name (kPathSeparator U)). validQueryPart U p) \<longrightarrow>
                (\<exists>t. r = Inr t \<and> testPath t = String_split name (kPathSeparator U)
                   \<and> Array_join (testPath t) (kPathSeparator U) = name
                   \<and> tests g' = tests g @ [t]
                   \<and> length (tests g') = length (tests g) + 1
                   \<and> seen g' = insert name (seen g))))"
proof (intro impI)
  assume inv: "group_inv U g"
  let ?sep = "kPathSeparator U"
  let ?st = "\<lparr>err_message = ''Test created: '' @ name, err_stack = stk\<rparr>"
  show "case TestGroup_test U g name stk of
        (r, g') \<Rightarrow>
          group_inv U g'
          \<and> (\<forall>e. decodeURIComponent U name = Inl e \<longrightarrow> r = Inl e \<and> g' = g)
          \<and> (\<forall>d. decodeURIComponent U name = Inr d \<and> d \<noteq> name \<longrightarrow>
                r = Inl (AssertionError (''Not decodeURIComponent-idempotent: '' @ name
                                          @ '' !== '' @ d)) \<and> g' = g)
          \<and> (decodeURIComponent U name = Inr name
              \<and> (\<exists>b \<in> set (tests g). Array_join (testPath b) (kPathSeparator U) = name) \<longrightarrow>
                r = Inl (AssertionError (''Duplicate test name: '' @ name)) \<and> g' = g)
          \<and> (decodeURIComponent U name = Inr name
              \<and> (\<exists>p \<in> set (String_split name (kPathSeparator U)). \<not> validQueryPart U p) \<longrightarrow>
                (\<exists>msg. r = Inl (AssertionError msg)) \<and> tests g' = tests g)
          \<and> (decodeURIComponent U name = Inr name
              \<and> (\<forall>b \<in> set (tests g). Array_join (testPath b) (kPathSeparator U) \<noteq> name)
              \<and> (\<forall>p \<in> set (String_split name (kPathSeparator U)). validQueryPart U p) \<longrightarrow>
                (\<exists>t. r = Inr t \<and> testPath t = String_split name (kPathSeparator U)
                   \<and> Array_join (testPath t) (kPathSeparator U) = name
                   \<and> tests g' = tests g @ [t]
                   \<and> length (tests g') = length (tests g) + 1
                   \<and> seen g' = insert name (seen g)))"
  proof (cases "decodeURIComponent U name")
    case (Inl e)
    then have "TestGroup_test U g name stk = (Inl e, g)"
      by (simp add: TestGroup_test_def checkName_def)
    then show ?thesis using inv Inl by simp
  next
    case (Inr d)
    show ?thesis
    proof (cases "d = name")
      case False
      then have "TestGroup_test U g name stk =
          (Inl (AssertionError (''Not decodeURIComponent-idempotent: '' @ name @ '' !== '' @ d)), g)"
        using Inr by (auto simp: TestGroup_test_def checkName_def assert_def)
      then show ?thesis using inv Inr False by simp
    next
      case True
      note d = Inr [unfolded True]
      show ?thesis
      proof (cases "name \<in> seen g")
        case True
        then have res: "TestGroup_test U g name stk =
            (Inl (AssertionError (''Duplicate test name: '' @ name)), g)"
          using d by (simp add: TestGroup_test_def checkName_def assert_def)
        have "(\<exists>b \<in> set (tests g). Array_join (testPath b) ?sep = name)
            \<or> (\<exists>p \<in> set (String_split name ?sep). \<not> validQueryPart U p)"
          using inv True by (simp add: group_inv_def)
        then show ?thesis using inv d res by auto
      next
        case False
        then have fresh: "\<forall>b \<in> set (tests g). Array_join (testPath b) ?sep \<noteq> name"
          using inv by (auto simp: group_inv_def)
        let ?g1 = "g\<lparr>seen := insert name (seen g)\<rparr>"
        show ?thesis
        proof (cases "find (\<lambda>p. \<not> validQueryPart U p) (String_split name ?sep)")
          case None
          let ?t = "TestBuilder_new (String_split name ?sep) (group_fixture g) ?st"
          have res: "TestGroup_test U g name stk = (Inr ?t, ?g1\<lparr>tests := tests g @ [?t]\<rparr>)"
            using d False None
            by (simp add: TestGroup_test_def checkName_def assert_def Let_def)
          have valid: "\<forall>p \<in> set (String_split name ?sep). validQueryPart U p"
            using None by (auto simp: find_None_iff)
          have path: "Array_join (testPath ?t) ?sep = name"
            by (simp add: TestBuilder_new_def join_split)
          have "group_inv U (?g1\<lparr>tests := tests g @ [?t]\<rparr>)"
            using inv path by (auto simp: group_inv_def)
          then show ?thesis
            using res d valid path fresh by (simp add: TestBuilder_new_def)
        next
          case (Some p)
          then have p: "p \<in> set (String_split name ?sep)" "\<not> validQueryPart U p"
            by (auto simp: find_Some_iff)
          have res: "TestGroup_test U g name stk =
              (Inl (AssertionError (''Invalid test name part '' @ p @ ''; must match ''
                                     @ validQueryPart_source U)), ?g1)"
            using d False Some
            by (simp add: TestGroup_test_def checkName_def assert_def Let_def)
          have "group_inv U ?g1"
            using inv p by (auto simp: group_inv_def)
          then show ?thesis
            using res d p fresh by auto
        qed
      qed
    qed
  qed
qed

theorem declare_test_witness:
  "group_inv demo (TestGroup_new demo_fixture)
   \<and> decodeURIComponent demo ''a,b'' = Inr ''a,b''
   \<and> TestGroup_test demo (TestGroup_new demo_fixture) ''a,b'' None
       = (Inr ab_decl, demo_group [ab_decl])
   \<and> group_inv demo (demo_group [ab_decl])
   \<and> TestGroup_test demo (demo_group [ab_decl]) ''a,b'' None
       = (Inl (AssertionError ''Duplicate test name: a,b''), demo_group [ab_decl])
   \<and> decodeURIComponent demo ''a%41'' = Inr ''aA''
   \<and> TestGroup_test demo (demo_group [ab_decl]) ''a%41'' None
       = (Inl (AssertionError ''Not decodeURIComponent-idempotent: a%41 !== aA''),
          demo_group [ab_decl])
   \<and> decodeURIComponent demo ''a,,b'' = Inr ''a,,b''
   \<and> String_split ''a,,b'' (kPathSeparator demo) = [''a'', [], ''b'']
   \<and> fst (TestGroup_test demo (demo_group [ab_decl]) ''a,,b'' None)
       = Inl (AssertionError ''Invalid test name part ; must match /^[a-zA-Z0-9_]+$/'')
   \<and> decodeURIComponent demo ''%'' = Inl (URIError ''URI malformed'')
   \<and> fst (TestGroup_test demo (demo_group [ab_decl]) ''%'' None)
       = Inl (URIError ''URI malformed'')"
  using declare_test [of demo "TestGroup_new demo_fixture" "''a,b''" None]
    declare_test [of demo "demo_group [ab_decl]" "''a,b''" None]
    declare_test [of demo "demo_group [ab_decl]" "''a%41''" None]
    declare_test [of demo "demo_group [ab_decl]" "''a,,b''" None]
    declare_test [of demo "demo_group [ab_decl]" "''%''" None]
  by (simp add: demo_group_simps demo_decl_simps demo_run_simps Let_def ab_decl_def
      group_inv_def hex_digit_def char_A)

text \<open>
  The claim as stated has every failure be an assertion failure. The name \<open>%\<close> is a
  single part that is not valid, and \<^verbatim>\<open>test\<close> fails on it with the \<^verbatim>\<open>URIError\<close> of
  \<^verbatim>\<open>decodeURIComponent\<close>, before any assertion is reached.
\<close>

theorem declare_test_counterexample:
  "String_split ''%'' (kPathSeparator demo) = [''%'']
   \<and> \<not> validQueryPart demo ''%''
   \<and> TestGroup_test demo (TestGroup_new demo_fixture) ''%'' None
       = (Inl (URIError ''URI malformed''), TestGroup_new demo_fixture)"
  by (simp add: demo_group_simps demo_decl_simps demo_run_simps Let_def)

subsection \<open>Attaching twice\<close>

text \<open>
  C9. A second body, a second case-parameter sequence and a second subcase generator
  are each refused by an assertion failure that leaves the declaration (and the store)
  as it was; \<^verbatim>\<open>unimplemented\<close> is refused in the same way once a body is attached,
  and the body may be one that \<^verbatim>\<open>fn\<close> or \<^verbatim>\<open>unimplemented\<close> itself attached.
\<close>

theorem attach_twice_fails:
  "(testFn b \<noteq> None \<longrightarrow>
      TestBuilder_fn b f = Inl (AssertionError [])
      \<and> TestBuilder_unimplemented b = Inl (AssertionError []))
   \<and> (caseParams b \<noteq> None \<longrightarrow>
      TestBuilder_cases h b src = (Inl (AssertionError ''test case is already parameterized''), h)
      \<and> TestBuilder_params h b src = (Inl (AssertionError ''test case is already parameterized''), h))
   \<and> (subcaseParams b \<noteq> None \<longrightarrow>
      TestBuilder_subcases b specs = Inl (AssertionError ''test subcases are already parameterized''))
   \<and> (TestBuilder_fn b f = Inr b1 \<longrightarrow> testFn b1 \<noteq> None)
   \<and> (TestBuilder_unimplemented b = Inr b2 \<longrightarrow> testFn b2 \<noteq> None)
   \<and> (TestBuilder_cases h b src = (Inr b3, h3) \<longrightarrow> caseParams b3 \<noteq> None)
   \<and> (TestBuilder_subcases b specs = Inr b4 \<longrightarrow> subcaseParams b4 \<noteq> None)"
  by (auto simp: TestBuilder_fn_def TestBuilder_unimplemented_def TestBuilder_cases_def
      TestBuilder_params_def TestBuilder_subcases_def assert_def
      split: sum.splits prod.splits if_splits)

theorem attach_twice_fails_witness:
  "testFn demo_full_decl \<noteq> None
   \<and> TestBuilder_fn demo_full_decl passing_fn = Inl (AssertionError [])
   \<and> TestBuilder_unimplemented demo_full_decl = Inl (AssertionError [])
   \<and> caseParams demo_full_decl \<noteq> None
   \<and> TestBuilder_cases demo_heap demo_full_decl 0
       = (Inl (AssertionError ''test case is already parameterized''), demo_heap)
   \<and> subcaseParams demo_full_decl \<noteq> None
   \<and> TestBuilder_subcases demo_full_decl (\<lambda>ps. ([], None))
       = Inl (AssertionError ''test subcases are already parameterized'')
   \<and> TestBuilder_fn demo_decl passing_fn = Inr (demo_decl\<lparr>testFn := Some passing_fn\<rparr>)
   \<and> testFn (demo_decl\<lparr>testFn := Some passing_fn\<rparr>) \<noteq> None
   \<and> TestBuilder_unimplemented demo_decl
       = Inr (demo_decl\<lparr>description := Some ''TODO: .unimplemented()'',
                        testFn := Some unimplemented_fn\<rparr>)
   \<and> TestBuilder_cases demo_heap demo_decl 0
       = (Inr (demo_decl\<lparr>caseParams := Some 1\<rparr>),
          demo_heap @ [JSArray [[(''x'', One), (''_hidden'', Two)], [(''x'', Two)]]])
   \<and> TestBuilder_subcases demo_decl (\<lambda>ps. ([], None))
       = Inr (demo_decl\<lparr>subcaseParams := Some (\<lambda>ps. ([], None))\<rparr>)"
  using attach_twice_fails [where b = demo_full_decl and f = passing_fn and h = demo_heap
      and src = 0 and specs = "\<lambda>ps. ([], None)"]
    attach_twice_fails [where b = demo_decl and f = passing_fn and h = demo_heap
      and src = 0 and specs = "\<lambda>ps. ([], None)"
      and ?b1.0 = "demo_decl\<lparr>testFn := Some passing_fn\<rparr>"]
  by (simp add: demo_full_decl_def demo_decl_def TestBuilder_new_def TestBuilder_fn_def
      TestBuilder_unimplemented_def TestBuilder_cases_def TestBuilder_subcases_def
      assert_def Array_from_def for_of_def lookup_def demo_heap_def)

end
